theory Spec2Isabelle
  imports Complex_Main "HOL-Library.AList"
begin

section \<open>Strings and arrays as JavaScript has them\<close>

text \<open>
  \<^verbatim>\<open>data.split('_')\<close> cuts a string at every underscore.  The result is never
  empty: the empty string gives one empty segment, and a string without an underscore
  gives itself.
\<close>

fun split_str :: "char \<Rightarrow> string \<Rightarrow> string list" where
  "split_str c [] = [[]]"
| "split_str c (x # xs) =
     (if x = c then [] # split_str c xs
      else (case split_str c xs of
              [] \<Rightarrow> [[x]]
            | p # ps \<Rightarrow> (x # p) # ps))"

text \<open>\<^verbatim>\<open>parts[i]\<close>: reading past the end of an array gives \<^verbatim>\<open>undefined\<close>, here \<open>None\<close>.\<close>

fun index :: "'a list \<Rightarrow> nat \<Rightarrow> 'a option" where
  "index [] i = None"
| "index (x # xs) 0 = Some x"
| "index (x # xs) (Suc i) = index xs i"

text \<open>\<^verbatim>\<open>segs.join('_')\<close>, the way a token is put together from its segments.\<close>

fun join_str :: "char \<Rightarrow> string list \<Rightarrow> string" where
  "join_str c [] = []"
| "join_str c [s] = s"
| "join_str c (s # t # ss) = s @ c # join_str c (t # ss)"

section \<open>Status transitions (server.js, the callback handler, lines 178-194)\<close>

text \<open>
  The handler splits the callback data, reads the first two segments and chooses the
  new status and whether the buttons go.  \<open>None\<close> is the branch that answers
  "Unknown action." and returns.
\<close>

definition resolve_action :: "string \<Rightarrow> (string \<times> bool) option" where
  "resolve_action data =
     (let parts = split_str (CHR ''_'') data;
          action = index parts 0;
          ty = index parts 1
      in if action = Some ''tow''
         then Some (''Tow Requested: '' @ (if ty = Some ''eagles'' then ''Eagles 24'' else ''Other''), False)
         else if action = Some ''scene'' \<and> ty = Some ''cleared''
         then Some (''Scene Cleared'', True)
         else None)"

section \<open>Values, documents and the incidents collection\<close>

text \<open>
  A stored incident is a MongoDB document, a JavaScript object: an ordered list of
  field names with their values.  Telegram ids are integers, coordinates are numbers,
  \<^verbatim>\<open>new Date()\<close> is an instant (milliseconds), and \<^verbatim>\<open>_id\<close> is an ObjectId,
  kept as its 24 lower-case hexadecimal digits.
\<close>

datatype jsval = JInt int | JNum real | JStr string | JDate nat | JOid string

type_synonym doc = "(string \<times> jsval) list"

definition hex_lower :: "char \<Rightarrow> char" where
  "hex_lower c = (case map_of (zip ''ABCDEF'' ''abcdef'') c of Some d \<Rightarrow> d | None \<Rightarrow> c)"

text \<open>The two lower-case hexadecimal digits of a byte.\<close>

definition hex_byte :: "char \<Rightarrow> string" where
  "hex_byte c =
     [''0123456789abcdef'' ! (of_char c div (16::nat)), ''0123456789abcdef'' ! (of_char c mod (16::nat))]"

text \<open>
  \<^verbatim>\<open>new ObjectId(s)\<close> for a string, by the rule of the driver whose
  \<^verbatim>\<open>findOneAndUpdate\<close> answers with \<^verbatim>\<open>{ value }\<close>, tried in this order: a string of
  12 characters that is 12 bytes long (all of them ASCII) is the id made of these bytes;
  a string of 24 hexadecimal digits, whatever their case, is the id they spell; anything
  else throws (\<open>None\<close>).
\<close>

definition ObjectId :: "string \<Rightarrow> string option" where
  "ObjectId s =
     (if length s = 12 \<and> list_all (\<lambda>c. of_char c < (128::nat)) s
      then Some (concat (map hex_byte s))
      else if length s = 24 \<and> list_all (\<lambda>c. c \<in> set ''0123456789abcdefABCDEF'') s
      then Some (map hex_lower s) else None)"

text \<open>A query document matches a stored one when each of its fields is there with that value.\<close>

definition matches :: "doc \<Rightarrow> doc \<Rightarrow> bool" where
  "matches flt d = list_all (\<lambda>(k, v). map_of d k = Some v) flt"

fun findOne :: "doc \<Rightarrow> doc list \<Rightarrow> doc option" where
  "findOne flt [] = None"
| "findOne flt (d # ds) = (if matches flt d then Some d else findOne flt ds)"

text \<open>\<^verbatim>\<open>deleteOne\<close> removes the first match and reports \<^verbatim>\<open>deletedCount\<close>.\<close>

fun deleteOne :: "doc \<Rightarrow> doc list \<Rightarrow> nat \<times> doc list" where
  "deleteOne flt [] = (0, [])"
| "deleteOne flt (d # ds) =
     (if matches flt d then (1, ds)
      else (case deleteOne flt ds of (n, ds') \<Rightarrow> (n, d # ds')))"

text \<open>\<^verbatim>\<open>{ $set: upd }\<close>: each field of \<open>upd\<close> is overwritten, or added at the end.\<close>

definition set_fields :: "doc \<Rightarrow> doc \<Rightarrow> doc" where
  "set_fields upd d = fold (\<lambda>(k, v). AList.update k v) upd d"

text \<open>
  \<^verbatim>\<open>findOneAndUpdate(flt, { $set: upd }, { returnDocument: 'after' })\<close>: the first match
  is updated in place.  The handler reads the outcome as \<^verbatim>\<open>result.value\<close>: the updated
  document, or null (\<open>None\<close>) when nothing matches, and then nothing is written.
\<close>

fun findOneAndUpdate :: "doc \<Rightarrow> doc \<Rightarrow> doc list \<Rightarrow> doc option \<times> doc list" where
  "findOneAndUpdate flt upd [] = (None, [])"
| "findOneAndUpdate flt upd (d # ds) =
     (if matches flt d then (Some (set_fields upd d), set_fields upd d # ds)
      else (case findOneAndUpdate flt upd ds of (r, ds') \<Rightarrow> (r, d # ds')))"

text \<open>
  \<^verbatim>\<open>insertOne(d)\<close> with the id the driver chose: the document is stored with its
  \<^verbatim>\<open>_id\<close>; an id already in the collection is a duplicate-key error (\<open>None\<close>).
\<close>

definition insertOne :: "string \<Rightarrow> doc \<Rightarrow> doc list \<Rightarrow> doc list option" where
  "insertOne oid d ds =
     (case findOne [(''_id'', JOid oid)] ds of
        Some _ \<Rightarrow> None
      | None \<Rightarrow> Some (ds @ [AList.update ''_id'' (JOid oid) d]))"

section \<open>What the server does to the outside\<close>

type_synonym button = "string \<times> string"
type_synonym keyboard = "button list list"

datatype target = Group string | Chat int

datatype event =
    new_incident doc
  | incident_updated doc
  | incident_deleted string
  | initial_incidents "doc list"

text \<open>
  The calls the handlers make: Telegram sends and edits (destination, text, the
  \<^verbatim>\<open>reply_markup\<close> passed or \<open>None\<close> for none), the answer to a button press, and
  socket emissions to every client (\<open>Emit\<close>) or to the connecting one (\<open>SocketEmit\<close>).
  A call is listed when it was carried out; an awaited send, edit or database call that
  throws is not listed and sends the handler to its \<^verbatim>\<open>catch\<close>.  Answers to a press,
  acknowledgements to the reporter and emissions are taken to go through.  Console
  output is left out.
\<close>

datatype effect =
    SendLocation target real real
  | SendMessage target string "keyboard option"
  | EditMessageText string int int "keyboard option"
  | AnswerCallbackQuery string string
  | Emit event
  | SocketEmit event

record world =
  incidents :: "doc list"
  outbox :: "effect list"

definition do :: "effect list \<Rightarrow> world \<Rightarrow> world" where
  "do es w = w\<lparr>outbox := outbox w @ es\<rparr>"

datatype body = Message string | Text string | Json "doc list"

record response =
  resp_status :: nat
  resp_body :: body

section \<open>HTTP endpoints (server.js, lines 49-99)\<close>

definition app_get_incidents :: "bool \<Rightarrow> world \<Rightarrow> response" where
  "app_get_incidents find_fails w =
     (if find_fails then \<lparr>resp_status = 500, resp_body = Text ''Error fetching incidents.''\<rparr>
      else \<lparr>resp_status = 200, resp_body = Json (incidents w)\<rparr>)"

text \<open>
  \<^verbatim>\<open>app.delete('/incidents/:id')\<close>.  Both database calls and the \<^verbatim>\<open>ObjectId\<close>
  constructor sit inside the \<^verbatim>\<open>try\<close>; whatever throws ends in the 500 answer.
\<close>

record delete_io =
  findOne_fails :: bool
  deleteOne_fails :: bool

definition error_deleting :: response where
  "error_deleting = \<lparr>resp_status = 500, resp_body = Text ''Error deleting incident.''\<rparr>"

definition app_delete_incident :: "delete_io \<Rightarrow> string \<Rightarrow> world \<Rightarrow> response \<times> world" where
  "app_delete_incident io incidentIdToDelete w =
     (case ObjectId incidentIdToDelete of
        None \<Rightarrow> (error_deleting, w)
      | Some oid \<Rightarrow>
          if findOne_fails io then (error_deleting, w)
          else (case findOne [(''_id'', JOid oid)] (incidents w) of
                  None \<Rightarrow> (\<lparr>resp_status = 404, resp_body = Message ''Incident not found.''\<rparr>, w)
                | Some incident \<Rightarrow>
                    if deleteOne_fails io then (error_deleting, w)
                    else (case deleteOne [(''_id'', JOid oid)] (incidents w) of
                            (deletedCount, rest) \<Rightarrow>
                              if deletedCount = 1
                              then (\<lparr>resp_status = 200,
                                      resp_body = Message ''Incident deleted successfully.''\<rparr>,
                                    do [Emit (incident_deleted incidentIdToDelete)]
                                       (w\<lparr>incidents := rest\<rparr>))
                              else (\<lparr>resp_status = 404,
                                      resp_body = Message ''Incident not found or already deleted.''\<rparr>,
                                    w\<lparr>incidents := rest\<rparr>))))"

section \<open>Report ingestion (server.js, lines 105-168)\<close>

fun show_nat :: "nat \<Rightarrow> string" where
  "show_nat n =
     (if n < 10 then [''0123456789'' ! n]
      else show_nat (n div 10) @ [''0123456789'' ! (n mod 10)])"

definition show_int :: "int \<Rightarrow> string" where
  "show_int i = (if i < 0 then CHR ''-'' # show_nat (nat (- i)) else show_nat (nat i))"

text \<open>\<^verbatim>\<open>from.username || 'N/A'\<close>: a missing or empty name gives the default.\<close>

definition or_NA :: "string option \<Rightarrow> string" where
  "or_NA u = (case u of None \<Rightarrow> ''N/A'' | Some s \<Rightarrow> if s = [] then ''N/A'' else s)"

record location_msg =
  loc_chat_id :: int
  loc_from_id :: int
  loc_first_name :: string
  loc_username :: "string option"
  loc_latitude :: real
  loc_longitude :: real

text \<open>
  What the handler gets from outside: the group id of the configuration, how a number
  prints in a template literal, whether \<^verbatim>\<open>sendLocation\<close> went through, the
  \<^verbatim>\<open>message_id\<close> and \<^verbatim>\<open>chat.id\<close> of the message \<^verbatim>\<open>sendMessage\<close> returned
  (\<open>None\<close>: it threw), the id of the insert (\<open>None\<close>: the backend failed), the clock.
\<close>

record location_io =
  TELEGRAM_GROUP_ID :: string
  num_str :: "real \<Rightarrow> string"
  sendLocation_ok :: bool
  forwardedMessage :: "(int \<times> int) option"
  insertedId :: "string option"
  loc_now :: nat

definition inlineKeyboard :: "int \<Rightarrow> keyboard" where
  "inlineKeyboard from_id =
     [[(''Eagles 24 Tow'', ''tow_eagles_'' @ show_int from_id),
       (''Other Tow'', ''tow_other_'' @ show_int from_id)],
      [(''Scene Cleared'', ''scene_cleared_'' @ show_int from_id)]]"

definition newline :: string where
  "newline = [CHR 0x0A]"

text \<open>
  The mark around the headline, byte for byte as the file has it: the four characters a
  siren emoji turns into when read in the wrong encoding.
\<close>

definition siren :: string where
  "siren = [CHR 0xC3, CHR 0xB0, CHR 0xC5, CHR 0xB8, CHR 0xC5, CHR 0xA1, CHR 0xC2, CHR 0xA8]"

definition messageText :: "(real \<Rightarrow> string) \<Rightarrow> location_msg \<Rightarrow> string" where
  "messageText shw msg =
     siren @ '' **New Incident Report!** '' @ siren @ newline @ newline @
     ''Reporter: '' @ loc_first_name msg @ '' (@'' @ or_NA (loc_username msg) @ '')'' @ newline @
     ''Location: Latitude '' @ shw (loc_latitude msg) @ '', Longitude '' @ shw (loc_longitude msg) @ newline @
     ''[View on Google Maps](http://maps.google.com/maps?q='' @ shw (loc_latitude msg) @ '','' @
        shw (loc_longitude msg) @ '')'' @ newline @ newline @
     ''_Please click a button below to update the status._''"

definition newIncident :: "location_msg \<Rightarrow> int \<Rightarrow> int \<Rightarrow> nat \<Rightarrow> doc" where
  "newIncident msg message_id chat_id now =
     [(''reporter_id'', JInt (loc_from_id msg)),
      (''reporter_name'', JStr (loc_first_name msg)),
      (''latitude'', JNum (loc_latitude msg)),
      (''longitude'', JNum (loc_longitude msg)),
      (''status'', JStr ''active''),
      (''telegram_message_id'', JInt message_id),
      (''telegram_chat_id'', JInt chat_id),
      (''timestamp'', JDate now)]"

definition error_notice :: "location_msg \<Rightarrow> effect" where
  "error_notice msg =
     SendMessage (Chat (loc_chat_id msg)) ''Sorry, there was an error processing your location.'' None"

definition bot_on_location :: "location_io \<Rightarrow> location_msg \<Rightarrow> world \<Rightarrow> world" where
  "bot_on_location io msg w =
     (if \<not> sendLocation_ok io then do [error_notice msg] w
      else
        let w1 = do [SendLocation (Group (TELEGRAM_GROUP_ID io)) (loc_latitude msg) (loc_longitude msg)] w
        in (case forwardedMessage io of
              None \<Rightarrow> do [error_notice msg] w1
            | Some (message_id, chat_id) \<Rightarrow>
                let w2 = do [SendMessage (Group (TELEGRAM_GROUP_ID io)) (messageText (num_str io) msg)
                               (Some (inlineKeyboard (loc_from_id msg)))] w1;
                    doc = newIncident msg message_id chat_id (loc_now io)
                in (case insertedId io of
                      None \<Rightarrow> do [error_notice msg] w2
                    | Some oid \<Rightarrow>
                        (case insertOne oid doc (incidents w2) of
                           None \<Rightarrow> do [error_notice msg] w2
                         | Some ds \<Rightarrow>
                             do [SendMessage (Chat (loc_chat_id msg))
                                   ''Your location has been forwarded to emergency response services.'' None,
                                 Emit (new_incident (AList.update ''_id'' (JOid oid) doc))]
                                (w2\<lparr>incidents := ds\<rparr>)))))"

section \<open>Button presses (server.js, lines 171-227)\<close>

record callback_query =
  cq_id :: string
  cq_data :: string
  cq_from_username :: "string option"
  cq_message_id :: int
  cq_chat_id :: int
  cq_text :: "string option"
  cq_caption :: "string option"
  cq_reply_markup :: "keyboard option"

text \<open>
  From outside: the time of day printed into the audit line, whether the edit and the
  database call went through, and the clock read for \<^verbatim>\<open>last_updated\<close>.
\<close>

record callback_io =
  toLocaleTimeString :: string
  editMessageText_ok :: bool
  findOneAndUpdate_ok :: bool
  cq_now :: nat

text \<open>
  \<^verbatim>\<open>msg.text || msg.caption\<close>, then \<^verbatim>\<open>+=\<close>: an empty or missing text falls to the
  caption, and a missing caption prints as \<^verbatim>\<open>undefined\<close>.
\<close>

definition original_text :: "callback_query \<Rightarrow> string" where
  "original_text cq =
     (case (case cq_text cq of
              Some t \<Rightarrow> if t = [] then cq_caption cq else Some t
            | None \<Rightarrow> cq_caption cq) of
        Some s \<Rightarrow> s
      | None \<Rightarrow> ''undefined'')"

definition audit_line :: "callback_io \<Rightarrow> callback_query \<Rightarrow> string \<Rightarrow> string" where
  "audit_line io cq newStatus =
     newline @ newline @ ''_Status: '' @ newStatus @ '' (by @'' @ or_NA (cq_from_username cq) @
     '' at '' @ toLocaleTimeString io @ '')_''"

definition bot_on_callback_query :: "callback_io \<Rightarrow> callback_query \<Rightarrow> world \<Rightarrow> world" where
  "bot_on_callback_query io cq w =
     (case resolve_action (cq_data cq) of
        None \<Rightarrow> do [AnswerCallbackQuery (cq_id cq) ''Unknown action.''] w
      | Some (newStatus, removeButtons) \<Rightarrow>
          let updatedMessageText = original_text cq @ audit_line io cq newStatus
          in if \<not> editMessageText_ok io
             then do [AnswerCallbackQuery (cq_id cq) ''Error updating status.''] w
             else
               let w1 = do [EditMessageText updatedMessageText (cq_chat_id cq) (cq_message_id cq)
                              (if removeButtons then None else cq_reply_markup cq)] w
               in if \<not> findOneAndUpdate_ok io
                  then do [AnswerCallbackQuery (cq_id cq) ''Error updating status.''] w1
                  else (case findOneAndUpdate
                               [(''telegram_message_id'', JInt (cq_message_id cq)),
                                (''telegram_chat_id'', JInt (cq_chat_id cq))]
                               [(''status'', JStr newStatus), (''last_updated'', JDate (cq_now io))]
                               (incidents w1) of
                          (result, ds) \<Rightarrow>
                            let w2 = w1\<lparr>incidents := ds\<rparr>;
                                w3 = (case result of
                                        Some v \<Rightarrow> do [Emit (incident_updated v)] w2
                                      | None \<Rightarrow> w2)
                            in do [AnswerCallbackQuery (cq_id cq) (''Status updated to: '' @ newStatus)] w3))"

section \<open>A client connects (server.js, lines 234-247)\<close>

definition io_on_connection :: "bool \<Rightarrow> world \<Rightarrow> world" where
  "io_on_connection find_fails w =
     (if find_fails then w else do [SocketEmit (initial_incidents (incidents w))] w)"

section \<open>The dashboard (public/script.js)\<close>

text \<open>
  The client works on incidents as the JSON gives them; \<open>inc_id\<close> is the field
  \<^verbatim>\<open>_id\<close>, a string.
\<close>

record incident =
  inc_id :: string
  inc_reporter_name :: string
  inc_status :: string
  inc_latitude :: real
  inc_longitude :: real
  inc_timestamp :: string

text \<open>
  A popup's content is a template over the incident: its heading, the first eight
  characters of the id, the reporter, the status and the coordinates.  A marker is
  a position with its popup.
\<close>

record popup =
  pop_heading :: string
  pop_id :: string
  pop_reporter :: string
  pop_status :: string
  pop_lat :: real
  pop_lon :: real

record marker =
  mk_lat :: real
  mk_lon :: real
  mk_popup :: popup

text \<open>
  A list entry \<^verbatim>\<open><li id="incident-...">\<close>: the id it is found by, the id it shows,
  the reporter, the text and the \<^verbatim>\<open>data-status\<close> attribute of its status span, and
  the timestamp it prints.
\<close>

record list_item =
  li_id :: string
  li_shown_id :: string
  li_reporter :: string
  li_status :: string
  li_data_status :: "string option"
  li_time :: string

text \<open>
  The page's state: the \<^verbatim>\<open>markers\<close> object (the markers on the map, by id), the
  entries of \<^verbatim>\<open>#incident-list\<close> from the top, the set \<^verbatim>\<open>displayedIncidentIds\<close>,
  the \<^verbatim>\<open>display\<close> style of the "no incidents" notice, the previous poll's snapshot,
  and the delays of the alert sounds set off so far.
\<close>

record dashboard =
  markers :: "string \<rightharpoonup> marker"
  incidentList :: "list_item list"
  displayedIncidentIds :: "string set"
  noIncidentsMessage :: string
  lastPollIncidents :: "incident list"
  alerts :: "nat list"

definition toLowerCase :: "string \<Rightarrow> string" where
  "toLowerCase s =
     map (\<lambda>c. case map_of (zip ''ABCDEFGHIJKLMNOPQRSTUVWXYZ'' ''abcdefghijklmnopqrstuvwxyz'') c of
                 Some d \<Rightarrow> d | None \<Rightarrow> c) s"

definition popup_content :: "string \<Rightarrow> incident \<Rightarrow> popup" where
  "popup_content heading inc =
     \<lparr>pop_heading = heading, pop_id = take 8 (inc_id inc), pop_reporter = inc_reporter_name inc,
      pop_status = inc_status inc, pop_lat = inc_latitude inc, pop_lon = inc_longitude inc\<rparr>"

definition updateNoIncidentsMessage :: "dashboard \<Rightarrow> dashboard" where
  "updateNoIncidentsMessage v =
     v\<lparr>noIncidentsMessage := (if dom (markers v) = {} then ''block'' else ''none'')\<rparr>"

text \<open>\<^verbatim>\<open>getElementById('status-' + id)\<close> is the span of the first entry with that id.\<close>

fun set_status_span :: "string \<Rightarrow> (list_item \<Rightarrow> list_item) \<Rightarrow> list_item list \<Rightarrow> list_item list" where
  "set_status_span i f [] = []"
| "set_status_span i f (x # xs) = (if li_id x = i then f x # xs else x # set_status_span i f xs)"

text \<open>\<^verbatim>\<open>getElementById('incident-' + id)\<close>, then \<^verbatim>\<open>remove()\<close>: the first entry with that id goes.\<close>

fun remove_item :: "string \<Rightarrow> list_item list \<Rightarrow> list_item list" where
  "remove_item i [] = []"
| "remove_item i (x # xs) = (if li_id x = i then xs else x # remove_item i xs)"

definition updateIncidentStatusInList :: "incident \<Rightarrow> dashboard \<Rightarrow> dashboard" where
  "updateIncidentStatusInList inc v =
     v\<lparr>incidentList :=
         set_status_span (inc_id inc)
           (\<lambda>x. x\<lparr>li_status := inc_status inc, li_data_status := Some (toLowerCase (inc_status inc))\<rparr>)
           (incidentList v),
       markers :=
         (case markers v (inc_id inc) of
            None \<Rightarrow> markers v
          | Some m \<Rightarrow> (markers v)(inc_id inc \<mapsto> m\<lparr>mk_popup := popup_content ''Incident ID: '' inc\<rparr>))\<rparr>"

definition addIncidentToMapAndList :: "incident \<Rightarrow> bool \<Rightarrow> dashboard \<Rightarrow> dashboard" where
  "addIncidentToMapAndList inc isNewFromPolling v =
     (if inc_id inc \<in> displayedIncidentIds v then updateIncidentStatusInList inc v
      else updateNoIncidentsMessage
             (v\<lparr>markers := (markers v)(inc_id inc \<mapsto>
                    \<lparr>mk_lat = inc_latitude inc, mk_lon = inc_longitude inc,
                     mk_popup = popup_content ''Incident ID: '' inc\<rparr>),
                incidentList :=
                    \<lparr>li_id = inc_id inc, li_shown_id = take 8 (inc_id inc),
                     li_reporter = inc_reporter_name inc, li_status = inc_status inc,
                     li_data_status = Some (toLowerCase (inc_status inc)),
                     li_time = inc_timestamp inc\<rparr> # incidentList v,
                displayedIncidentIds := insert (inc_id inc) (displayedIncidentIds v),
                alerts := alerts v @ [if isNewFromPolling then 0 else 500]\<rparr>))"

definition removeIncidentFromMapAndList :: "string \<Rightarrow> dashboard \<Rightarrow> dashboard" where
  "removeIncidentFromMapAndList incidentId v =
     updateNoIncidentsMessage
       (v\<lparr>markers := (markers v)(incidentId := None),
          incidentList := remove_item incidentId (incidentList v),
          displayedIncidentIds := displayedIncidentIds v - {incidentId}\<rparr>)"


text \<open>The socket listeners.\<close>

definition on_initial_incidents :: "incident list \<Rightarrow> dashboard \<Rightarrow> dashboard" where
  "on_initial_incidents initialIncidents v =
     (fold (\<lambda>inc. addIncidentToMapAndList inc False) initialIncidents v)
       \<lparr>lastPollIncidents := initialIncidents\<rparr>"

definition on_new_incident :: "incident \<Rightarrow> dashboard \<Rightarrow> dashboard" where
  "on_new_incident inc v = addIncidentToMapAndList inc False v"

definition on_incident_deleted :: "string \<Rightarrow> dashboard \<Rightarrow> dashboard" where
  "on_incident_deleted incidentId v = removeIncidentFromMapAndList incidentId v"


text \<open>
  The page as the script leaves it when it has loaded: nothing shown, the notice
  set by the closing call of \<^verbatim>\<open>updateNoIncidentsMessage\<close>.
\<close>

definition page_loaded :: dashboard where
  "page_loaded =
     \<lparr>markers = Map.empty, incidentList = [], displayedIncidentIds = {},
      noIncidentsMessage = ''block'', lastPollIncidents = [], alerts = []\<rparr>"

section \<open>The other copy of the dashboard script\<close>

text \<open>
  The second script keeps no id set and does not poll: an incident is present when it
  has a marker.  Its listener for new incidents plays the sound itself, every time.
\<close>

definition updateIncidentStatusInList_p0 :: "incident \<Rightarrow> dashboard \<Rightarrow> dashboard" where
  "updateIncidentStatusInList_p0 inc v =
     v\<lparr>incidentList :=
         set_status_span (inc_id inc) (\<lambda>x. x\<lparr>li_status := inc_status inc\<rparr>) (incidentList v),
       markers :=
         (case markers v (inc_id inc) of
            None \<Rightarrow> markers v
          | Some m \<Rightarrow> (markers v)(inc_id inc \<mapsto> m\<lparr>mk_popup := popup_content ''Incident ID: '' inc\<rparr>))\<rparr>"

definition addIncidentToMapAndList_p0 :: "incident \<Rightarrow> dashboard \<Rightarrow> dashboard" where
  "addIncidentToMapAndList_p0 inc v =
     (case markers v (inc_id inc) of
        Some m \<Rightarrow> v
      | None \<Rightarrow>
          updateNoIncidentsMessage
            (v\<lparr>markers := (markers v)(inc_id inc \<mapsto>
                   \<lparr>mk_lat = inc_latitude inc, mk_lon = inc_longitude inc,
                    mk_popup = popup_content ''Incident #'' inc\<rparr>),
               incidentList :=
                   \<lparr>li_id = inc_id inc, li_shown_id = inc_id inc,
                    li_reporter = inc_reporter_name inc, li_status = inc_status inc,
                    li_data_status = None, li_time = inc_timestamp inc\<rparr> # incidentList v\<rparr>))"

definition removeIncidentFromMapAndList_p0 :: "string \<Rightarrow> dashboard \<Rightarrow> dashboard" where
  "removeIncidentFromMapAndList_p0 incidentId v =
     updateNoIncidentsMessage
       (v\<lparr>markers := (markers v)(incidentId := None),
          incidentList := remove_item incidentId (incidentList v)\<rparr>)"

definition on_new_incident_p0 :: "incident \<Rightarrow> dashboard \<Rightarrow> dashboard" where
  "on_new_incident_p0 inc v = (addIncidentToMapAndList_p0 inc v)\<lparr>alerts := alerts (addIncidentToMapAndList_p0 inc v) @ [0]\<rparr>"

section \<open>Runs of the server and of the page, and what the properties speak of\<close>

text \<open>
  The server starts on an empty collection and then handles events one at a time, each
  with whatever the outside gives it.
\<close>

inductive reachable :: "world \<Rightarrow> bool" where
  start: "reachable \<lparr>incidents = [], outbox = []\<rparr>"
| location: "reachable w \<Longrightarrow> reachable (bot_on_location io msg w)"
| callback: "reachable w \<Longrightarrow> reachable (bot_on_callback_query cio cq w)"
| delete: "reachable w \<Longrightarrow> reachable (snd (app_delete_incident dio i w))"
| connection: "reachable w \<Longrightarrow> reachable (io_on_connection b w)"

text \<open>The documents an emission carries to the clients.\<close>

fun event_docs :: "event \<Rightarrow> doc list" where
  "event_docs (new_incident d) = [d]"
| "event_docs (incident_updated d) = [d]"
| "event_docs (incident_deleted i) = []"
| "event_docs (initial_incidents ds) = ds"

fun effect_docs :: "effect \<Rightarrow> doc list" where
  "effect_docs (Emit e) = event_docs e"
| "effect_docs (SocketEmit e) = event_docs e"
| "effect_docs _ = []"

fun is_emit :: "effect \<Rightarrow> bool" where
  "is_emit (Emit e) = True"
| "is_emit (SocketEmit e) = True"
| "is_emit _ = False"

fun is_edit :: "effect \<Rightarrow> bool" where
  "is_edit (EditMessageText t c m k) = True"
| "is_edit _ = False"

text \<open>The field names of a record on the wire, as the code writes them.\<close>

definition wire_fields :: "string list" where
  "wire_fields =
     [''_id'', ''reporter_id'', ''reporter_name'', ''latitude'', ''longitude'', ''status'',
      ''telegram_message_id'', ''telegram_chat_id'', ''timestamp'']"

definition wire_shape :: "doc \<Rightarrow> bool" where
  "wire_shape d \<longleftrightarrow>
     distinct (map fst d) \<and>
     (set (map fst d) = set wire_fields \<or> set (map fst d) = set (''last_updated'' # wire_fields))"

text \<open>The field names as the specification lists them, with \<^verbatim>\<open>id\<close>.\<close>

definition spec_wire_shape :: "doc \<Rightarrow> bool" where
  "spec_wire_shape d \<longleftrightarrow>
     (let names = [''id'', ''reporter_id'', ''reporter_name'', ''latitude'', ''longitude'', ''status'',
                   ''telegram_message_id'', ''telegram_chat_id'', ''timestamp'']
      in set (map fst d) = set names \<or> set (map fst d) = set (''last_updated'' # names))"

text \<open>The bounds of the specification's data model; the handler has no such test.\<close>

definition spec_valid_location :: "real \<Rightarrow> real \<Rightarrow> bool" where
  "spec_valid_location lat lon \<longleftrightarrow> - 90 \<le> lat \<and> lat \<le> 90 \<and> - 180 \<le> lon \<and> lon \<le> 180"

text \<open>Every stored incident and every document sent to a client has the wire's field names.\<close>

definition shaped :: "world \<Rightarrow> bool" where
  "shaped w \<longleftrightarrow> list_all wire_shape (incidents w) \<and>
     list_all (\<lambda>e. list_all wire_shape (effect_docs e)) (outbox w)"

text \<open>Ids are unique in the collection, as the database keeps them.\<close>

definition unique_ids :: "doc list \<Rightarrow> bool" where
  "unique_ids ds \<longleftrightarrow> distinct (map (\<lambda>d. map_of d ''_id'') ds)"


text \<open>
  The three places of the page that hold the shown incidents agree: markers, list
  entries (one per id) and the id set.
\<close>

definition consistent :: "dashboard \<Rightarrow> bool" where
  "consistent v \<longleftrightarrow>
     dom (markers v) = displayedIncidentIds v \<and>
     set (map li_id (incidentList v)) = displayedIncidentIds v \<and>
     distinct (map li_id (incidentList v))"

section \<open>The scenario of the specification, as inputs\<close>

text \<open>
  Alice reports from (-25.75, 28.23); every outside call succeeds; a button of the group
  message is pressed with a given token.
\<close>

abbreviation alice :: location_msg where
  "alice \<equiv> \<lparr>loc_chat_id = 42, loc_from_id = 42, loc_first_name = ''Alice'', loc_username = None,
             loc_latitude = - 25.75, loc_longitude = 28.23\<rparr>"

abbreviation all_goes_well :: location_io where
  "all_goes_well \<equiv> \<lparr>TELEGRAM_GROUP_ID = ''-100'', num_str = (\<lambda>x. ''?''), sendLocation_ok = True,
      forwardedMessage = Some (7, - 100), insertedId = Some ''65a1b2c3d4e5f60718293a4b'', loc_now = 1000\<rparr>"

abbreviation press :: "string \<Rightarrow> callback_query" where
  "press token \<equiv> \<lparr>cq_id = ''q1'', cq_data = token, cq_from_username = Some ''bob'',
      cq_message_id = 7, cq_chat_id = - 100, cq_text = Some ''Report'', cq_caption = None,
      cq_reply_markup = Some (inlineKeyboard 42)\<rparr>"

abbreviation calls_succeed :: callback_io where
  "calls_succeed \<equiv> \<lparr>toLocaleTimeString = ''10:00:00'', editMessageText_ok = True,
      findOneAndUpdate_ok = True, cq_now = 2000\<rparr>"

abbreviation nothing_yet :: world where
  "nothing_yet \<equiv> \<lparr>incidents = [], outbox = []\<rparr>"

abbreviation alice_doc :: doc where
  "alice_doc \<equiv> [(''reporter_id'', JInt 42), (''reporter_name'', JStr ''Alice''),
      (''latitude'', JNum (- 25.75)), (''longitude'', JNum 28.23), (''status'', JStr ''active''),
      (''telegram_message_id'', JInt 7), (''telegram_chat_id'', JInt (- 100)),
      (''timestamp'', JDate 1000), (''_id'', JOid ''65a1b2c3d4e5f60718293a4b'')]"

abbreviation one_incident :: world where
  "one_incident \<equiv> \<lparr>incidents = [alice_doc], outbox = []\<rparr>"

text \<open>Two incidents as a client receives them.\<close>

abbreviation incident_a :: incident where
  "incident_a \<equiv> \<lparr>inc_id = ''65a1b2c3d4e5f60718293a4b'', inc_reporter_name = ''Alice'',
      inc_status = ''active'', inc_latitude = - 25.75, inc_longitude = 28.23,
      inc_timestamp = ''2025-01-01T10:00:00.000Z''\<rparr>"


section \<open>Facts about splitting\<close>

lemma split_str_nonempty: "split_str c s \<noteq> []"
  by (induction s) (auto split: list.splits)

lemma split_str_plain: "c \<notin> set s \<Longrightarrow> split_str c s = [s]"
  by (induction s) auto

lemma split_str_append:
  "c \<notin> set s \<Longrightarrow> split_str c (s @ c # t) = s # split_str c t"
  by (induction s) auto

lemma split_join:
  "segs \<noteq> [] \<Longrightarrow> \<forall>s \<in> set segs. c \<notin> set s \<Longrightarrow> split_str c (join_str c segs) = segs"
proof (induction c segs rule: join_str.induct)
  case (1 c)
  then show ?case by simp
next
  case (2 c s)
  then show ?case by (simp add: split_str_plain)
next
  case (3 c s t ss)
  then show ?case by (simp add: split_str_append)
qed

lemma resolve_action_segments:
  "split_str (CHR ''_'') data = verb # rest \<Longrightarrow>
   resolve_action data =
     (if verb = ''tow''
      then Some (if index rest 0 = Some ''eagles'' then ''Tow Requested: Eagles 24'' else ''Tow Requested: Other'', False)
      else if verb = ''scene'' \<and> index rest 0 = Some ''cleared'' then Some (''Scene Cleared'', True)
      else None)"
  by (cases rest) (simp_all add: resolve_action_def)

section \<open>Facts about the collection and the handlers\<close>

lemma outbox_do: "outbox (do es w) = outbox w @ es"
  by (simp add: do_def)

lemma incidents_do: "incidents (do es w) = incidents w"
  by (simp add: do_def)

lemma matches_id: "matches [(''_id'', v)] d \<longleftrightarrow> map_of d ''_id'' = Some v"
  by (simp add: matches_def)


lemma findOneAndUpdate_some:
  "findOne flt ds = Some d \<Longrightarrow>
   \<exists>ds1 ds2. ds = ds1 @ d # ds2 \<and> findOne flt ds1 = None \<and>
     findOneAndUpdate flt upd ds = (Some (set_fields upd d), ds1 @ set_fields upd d # ds2)"
proof (induction ds)
  case Nil
  then show ?case by simp
next
  case (Cons a ds)
  show ?case
  proof (cases "matches flt a")
    case True
    with Cons.prems have "a = d" by simp
    with True show ?thesis by (intro exI [of _ "[]"] exI [of _ ds]) simp
  next
    case False
    with Cons obtain ds1 ds2 where
      "ds = ds1 @ d # ds2" "findOne flt ds1 = None"
      "findOneAndUpdate flt upd ds = (Some (set_fields upd d), ds1 @ set_fields upd d # ds2)"
      by auto
    with False show ?thesis by (intro exI [of _ "a # ds1"] exI [of _ ds2]) simp
  qed
qed

lemma findOneAndUpdate_frame:
  "list_all2 (\<lambda>old new. new = old \<or> new = set_fields upd old)
     ds (snd (findOneAndUpdate flt upd ds))"
  by (induction ds) (auto split: prod.splits simp: list_all2_same list.rel_refl)

lemma map_of_set_fields2:
  "map_of (set_fields [(k1, v1), (k2, v2)] d) = (map_of d)(k1 \<mapsto> v1, k2 \<mapsto> v2)"
  by (simp add: set_fields_def AList.update_conv')

lemma keys_set_fields2:
  "set (map fst (set_fields [(k1, v1), (k2, v2)] d)) = insert k1 (insert k2 (set (map fst d)))"
  by (auto simp add: set_fields_def AList.update_keys)

lemma distinct_set_fields2:
  "distinct (map fst d) \<Longrightarrow> distinct (map fst (set_fields [(k1, v1), (k2, v2)] d))"
  by (simp add: set_fields_def AList.distinct_update)

lemma callback_incidents:
  "incidents (bot_on_callback_query io cq w) = incidents w \<or>
   (\<exists>st rb. resolve_action (cq_data cq) = Some (st, rb) \<and>
      incidents (bot_on_callback_query io cq w) =
        snd (findOneAndUpdate
               [(''telegram_message_id'', JInt (cq_message_id cq)), (''telegram_chat_id'', JInt (cq_chat_id cq))]
               [(''status'', JStr st), (''last_updated'', JDate (cq_now io))] (incidents w)))"
  by (auto simp add: bot_on_callback_query_def Let_def incidents_do split: option.splits prod.splits)

lemma findOne_none_iff: "findOne flt ds = None \<longleftrightarrow> (\<forall>d \<in> set ds. \<not> matches flt d)"
  by (induction ds) auto

lemma findOne_some_mem: "findOne flt ds = Some d \<Longrightarrow> d \<in> set ds \<and> matches flt d"
  by (induction ds) (auto split: if_splits)

lemma deleteOne_unique:
  "unique_ids ds \<Longrightarrow> findOne [(''_id'', v)] ds = Some d \<Longrightarrow>
   \<exists>ds1 ds2. ds = ds1 @ d # ds2 \<and> deleteOne [(''_id'', v)] ds = (1, ds1 @ ds2) \<and>
      (\<forall>x \<in> set (ds1 @ ds2). map_of x ''_id'' \<noteq> Some v)"
proof (induction ds)
  case Nil
  then show ?case by simp
next
  case (Cons a ds)
  show ?case
  proof (cases "matches [(''_id'', v)] a")
    case True
    with Cons.prems have ad: "a = d" by simp
    from True have "map_of a ''_id'' = Some v" by (simp add: matches_id)
    with Cons.prems(1) have "\<forall>x \<in> set ds. map_of x ''_id'' \<noteq> Some v"
      by (auto simp add: unique_ids_def image_iff)
    with True ad show ?thesis by (intro exI [of _ "[]"] exI [of _ ds]) simp
  next
    case False
    from Cons.prems(1) have "unique_ids ds" by (simp add: unique_ids_def)
    moreover from False Cons.prems(2) have "findOne [(''_id'', v)] ds = Some d" by simp
    ultimately obtain ds1 ds2 where
      h: "ds = ds1 @ d # ds2" "deleteOne [(''_id'', v)] ds = (1, ds1 @ ds2)"
         "\<forall>x \<in> set (ds1 @ ds2). map_of x ''_id'' \<noteq> Some v"
      using Cons.IH by blast
    from False have "map_of a ''_id'' \<noteq> Some v" by (simp add: matches_id)
    with False h show ?thesis by (intro exI [of _ "a # ds1"] exI [of _ ds2]) simp
  qed
qed

lemma callback_first_effect:
  assumes "resolve_action (cq_data cq) = Some (st, rb)" "editMessageText_ok io"
  shows "take (Suc (length (outbox w))) (outbox (bot_on_callback_query io cq w)) =
         outbox w @ [EditMessageText (original_text cq @ audit_line io cq st) (cq_chat_id cq) (cq_message_id cq)
                       (if rb then None else cq_reply_markup cq)]"
  using assms
  by (simp add: bot_on_callback_query_def Let_def outbox_do incidents_do split: prod.splits option.splits)

section \<open>Facts about field names and ids\<close>

lemma rotate_keys:
  "xs \<noteq> [] \<Longrightarrow> set (tl xs @ [hd xs]) = set xs \<and> distinct (tl xs @ [hd xs]) = distinct xs"
  by (cases xs) auto

lemma distinct_wire_fields: "distinct wire_fields"
  by (simp add: wire_fields_def)

lemma keys_newIncident:
  "map fst (AList.update ''_id'' (JOid oid) (newIncident msg mid cid now)) = tl wire_fields @ [hd wire_fields]"
  by (simp add: newIncident_def wire_fields_def)

lemma wire_shape_newIncident:
  "wire_shape (AList.update ''_id'' (JOid oid) (newIncident msg mid cid now))"
proof -
  have n: "wire_fields \<noteq> []"
    by (simp add: wire_fields_def)
  from rotate_keys [OF n] distinct_wire_fields show ?thesis
    unfolding wire_shape_def keys_newIncident by blast
qed

lemma shape_step:
  "s \<in> W \<Longrightarrow> K = W \<or> K = insert l W \<Longrightarrow> insert s (insert l K) = insert l W"
  by blast

lemma wire_shape_status_update:
  assumes "wire_shape d"
  shows "wire_shape (set_fields [(''status'', a), (''last_updated'', b)] d)"
proof -
  let ?d' = "set_fields [(''status'', a), (''last_updated'', b)] d"
  have m: "''status'' \<in> set wire_fields"
    by (simp add: wire_fields_def)
  from assms have dist: "distinct (map fst d)"
    unfolding wire_shape_def by (rule conjunct1)
  from assms have "set (map fst d) = set wire_fields \<or> set (map fst d) = set (''last_updated'' # wire_fields)"
    unfolding wire_shape_def by (rule conjunct2)
  then have shape: "set (map fst d) = set wire_fields \<or> set (map fst d) = insert ''last_updated'' (set wire_fields)"
    by (simp only: list.set)
  have "set (map fst ?d') = insert ''status'' (insert ''last_updated'' (set (map fst d)))"
    by (rule keys_set_fields2)
  also have "\<dots> = insert ''last_updated'' (set wire_fields)"
    using m shape by (rule shape_step)
  finally have "set (map fst ?d') = set (''last_updated'' # wire_fields)"
    by (simp only: list.set)
  moreover from dist have "distinct (map fst ?d')"
    by (rule distinct_set_fields2)
  ultimately show ?thesis
    unfolding wire_shape_def by (intro conjI disjI2)
qed

lemma findOneAndUpdate_shape:
  "list_all wire_shape ds \<Longrightarrow>
   list_all wire_shape (snd (findOneAndUpdate flt [(''status'', a), (''last_updated'', b)] ds)) \<and>
   (\<forall>v. fst (findOneAndUpdate flt [(''status'', a), (''last_updated'', b)] ds) = Some v \<longrightarrow> wire_shape v)"
  by (induction ds) (auto simp add: wire_shape_status_update split: prod.splits)

lemma deleteOne_shape:
  "list_all wire_shape ds \<Longrightarrow> deleteOne flt ds = (n, ds') \<Longrightarrow> list_all wire_shape ds'"
  by (induction ds arbitrary: n ds') (auto split: prod.splits if_splits)

lemma shaped_location: "shaped w \<Longrightarrow> shaped (bot_on_location io msg w)"
  by (auto simp add: shaped_def bot_on_location_def Let_def do_def insertOne_def error_notice_def
      wire_shape_newIncident split: option.splits)

lemma shaped_callback:
  assumes "shaped w"
  shows "shaped (bot_on_callback_query io cq w)"
proof (cases "resolve_action (cq_data cq)")
  case None
  with assms show ?thesis
    by (simp add: shaped_def bot_on_callback_query_def do_def)
next
  case (Some r)
  obtain st rb where r: "r = (st, rb)" by (cases r)
  let ?res = "findOneAndUpdate
      [(''telegram_message_id'', JInt (cq_message_id cq)), (''telegram_chat_id'', JInt (cq_chat_id cq))]
      [(''status'', JStr st), (''last_updated'', JDate (cq_now io))] (incidents w)"
  from assms have "list_all wire_shape (incidents w)" by (simp add: shaped_def)
  from findOneAndUpdate_shape [OF this]
  have "list_all wire_shape (snd ?res)" and "\<forall>v. fst ?res = Some v \<longrightarrow> wire_shape v"
    by blast+
  with assms Some r show ?thesis
    by (cases ?res) (auto simp add: shaped_def bot_on_callback_query_def Let_def do_def split: option.splits)
qed

lemma shaped_delete: "shaped w \<Longrightarrow> shaped (snd (app_delete_incident io i w))"
  by (auto simp add: shaped_def app_delete_incident_def do_def split: option.splits prod.splits
      dest: deleteOne_shape)

lemma shaped_connection: "shaped w \<Longrightarrow> shaped (io_on_connection b w)"
  by (simp add: shaped_def io_on_connection_def do_def)

lemma reachable_shaped: "reachable w \<Longrightarrow> shaped w"
proof (induction rule: reachable.induct)
  case start
  show ?case by (simp add: shaped_def)
next
  case (location w io msg)
  then show ?case by (simp add: shaped_location)
next
  case (callback w cio cq)
  then show ?case by (simp add: shaped_callback)
next
  case (delete w dio i)
  then show ?case by (simp add: shaped_delete)
next
  case (connection w b)
  then show ?case by (simp add: shaped_connection)
qed

lemma id_of_status_update:
  "map_of (set_fields [(''status'', a), (''last_updated'', b)] d) ''_id'' = map_of d ''_id''"
  by (simp add: map_of_set_fields2)

lemma findOneAndUpdate_ids:
  "map (\<lambda>d. map_of d ''_id'') (snd (findOneAndUpdate flt [(''status'', a), (''last_updated'', b)] ds)) =
   map (\<lambda>d. map_of d ''_id'') ds"
  by (induction ds) (auto simp add: id_of_status_update split: prod.splits)

lemma deleteOne_ids:
  "deleteOne flt ds = (n, ds') \<Longrightarrow> unique_ids ds \<Longrightarrow> unique_ids ds' \<and> set ds' \<subseteq> set ds"
proof (induction ds arbitrary: n ds')
  case Nil
  then show ?case by simp
next
  case (Cons a ds)
  show ?case
  proof (cases "matches flt a")
    case True
    with Cons.prems show ?thesis by (auto simp add: unique_ids_def)
  next
    case False
    obtain m es where r: "deleteOne flt ds = (m, es)" by (cases "deleteOne flt ds")
    from Cons.prems(2) have u: "unique_ids ds" and f: "map_of a ''_id'' \<notin> (\<lambda>d. map_of d ''_id'') ` set ds"
      by (simp_all add: unique_ids_def)
    from Cons.IH [OF r u] have ih: "unique_ids es" "set es \<subseteq> set ds" by simp_all
    from False r Cons.prems(1) have e: "ds' = a # es" by simp
    from f ih(2) have "map_of a ''_id'' \<notin> (\<lambda>d. map_of d ''_id'') ` set es" by blast
    with ih e show ?thesis by (auto simp add: unique_ids_def)
  qed
qed

lemma unique_ids_insert:
  assumes "unique_ids ds" "findOne [(''_id'', JOid oid)] ds = None"
  shows "unique_ids (ds @ [AList.update ''_id'' (JOid oid) d])"
proof -
  from assms(2) have "\<forall>x \<in> set ds. map_of x ''_id'' \<noteq> Some (JOid oid)"
    by (simp add: findOne_none_iff matches_id)
  moreover have "map_of (AList.update ''_id'' (JOid oid) d) ''_id'' = Some (JOid oid)"
    by (simp add: AList.update_conv')
  ultimately show ?thesis
    using assms(1) by (auto simp add: unique_ids_def)
qed

lemma unique_ids_location: "unique_ids (incidents w) \<Longrightarrow> unique_ids (incidents (bot_on_location io msg w))"
  by (auto simp add: bot_on_location_def Let_def incidents_do insertOne_def unique_ids_insert
      split: option.splits)

lemma unique_ids_callback:
  "unique_ids (incidents w) \<Longrightarrow> unique_ids (incidents (bot_on_callback_query io cq w))"
  using callback_incidents [of io cq w]
  by (auto simp add: unique_ids_def findOneAndUpdate_ids)

lemma unique_ids_delete:
  "unique_ids (incidents w) \<Longrightarrow> unique_ids (incidents (snd (app_delete_incident io i w)))"
  by (auto simp add: app_delete_incident_def incidents_do split: option.splits prod.splits
      dest: deleteOne_ids)

lemma reachable_unique_ids: "reachable w \<Longrightarrow> unique_ids (incidents w)"
proof (induction rule: reachable.induct)
  case start
  show ?case by (simp add: unique_ids_def)
next
  case (location w io msg)
  then show ?case by (simp add: unique_ids_location)
next
  case (callback w cio cq)
  then show ?case by (simp add: unique_ids_callback)
next
  case (delete w dio i)
  then show ?case by (simp add: unique_ids_delete)
next
  case (connection w b)
  then show ?case by (simp add: io_on_connection_def incidents_do)
qed

section \<open>Facts about the dashboard\<close>


lemma set_status_span_idem:
  "(\<And>x. li_id (f x) = li_id x) \<Longrightarrow> (\<And>x. f (f x) = f x) \<Longrightarrow>
   set_status_span i f (set_status_span i f xs) = set_status_span i f xs"
  by (induction xs) auto

lemma remove_item_absent: "i \<notin> set (map li_id xs) \<Longrightarrow> remove_item i xs = xs"
  by (induction xs) auto


lemma updateIncidentStatusInList_idem:
  "updateIncidentStatusInList inc (updateIncidentStatusInList inc v) = updateIncidentStatusInList inc v"
  by (cases "markers v (inc_id inc)")
     (simp_all add: updateIncidentStatusInList_def set_status_span_idem)

lemma updateIncidentStatusInList_displayed:
  "displayedIncidentIds (updateIncidentStatusInList inc v) = displayedIncidentIds v"
  by (simp add: updateIncidentStatusInList_def)

lemma addIncidentToMapAndList_idem:
  "addIncidentToMapAndList inc b' (addIncidentToMapAndList inc b v) = addIncidentToMapAndList inc b v"
proof (cases "inc_id inc \<in> displayedIncidentIds v")
  case True
  then show ?thesis
    by (simp add: addIncidentToMapAndList_def updateIncidentStatusInList_displayed
        updateIncidentStatusInList_idem)
next
  case False
  then show ?thesis
    by (simp add: addIncidentToMapAndList_def updateNoIncidentsMessage_def
        updateIncidentStatusInList_def)
qed

lemma addIncidentToMapAndList_p0_idem:
  "addIncidentToMapAndList_p0 inc (addIncidentToMapAndList_p0 inc v) = addIncidentToMapAndList_p0 inc v"
  by (cases "markers v (inc_id inc)")
     (simp_all add: addIncidentToMapAndList_p0_def updateNoIncidentsMessage_def)

lemma removeIncidentFromMapAndList_absent:
  "markers v i = None \<Longrightarrow> i \<notin> set (map li_id (incidentList v)) \<Longrightarrow> i \<notin> displayedIncidentIds v \<Longrightarrow>
   removeIncidentFromMapAndList i v = updateNoIncidentsMessage v"
  by (simp add: removeIncidentFromMapAndList_def remove_item_absent fun_upd_idem)

lemma removeIncidentFromMapAndList_p0_absent:
  "markers v i = None \<Longrightarrow> i \<notin> set (map li_id (incidentList v)) \<Longrightarrow>
   removeIncidentFromMapAndList_p0 i v = updateNoIncidentsMessage v"
  by (simp add: removeIncidentFromMapAndList_p0_def remove_item_absent fun_upd_idem)

lemma updateNoIncidentsMessage_fields:
  "markers (updateNoIncidentsMessage v) = markers v"
  "incidentList (updateNoIncidentsMessage v) = incidentList v"
  "displayedIncidentIds (updateNoIncidentsMessage v) = displayedIncidentIds v"
  "lastPollIncidents (updateNoIncidentsMessage v) = lastPollIncidents v"
  by (simp_all add: updateNoIncidentsMessage_def)

lemma consistent_updateNoIncidentsMessage:
  "consistent (updateNoIncidentsMessage v) = consistent v"
  by (simp add: consistent_def updateNoIncidentsMessage_fields)

















lemma notice_idle_iff:
  "updateNoIncidentsMessage v = v \<longleftrightarrow>
   noIncidentsMessage v = (if dom (markers v) = {} then ''block'' else ''none'')"
proof
  assume "updateNoIncidentsMessage v = v"
  then have "noIncidentsMessage (updateNoIncidentsMessage v) = noIncidentsMessage v"
    by simp
  then show "noIncidentsMessage v = (if dom (markers v) = {} then ''block'' else ''none'')"
    by (simp add: updateNoIncidentsMessage_def)
next
  assume "noIncidentsMessage v = (if dom (markers v) = {} then ''block'' else ''none'')"
  then show "updateNoIncidentsMessage v = v"
    by (simp add: updateNoIncidentsMessage_def)
qed

lemma notice_kept_by_update:
  "updateNoIncidentsMessage v = v \<Longrightarrow>
   updateNoIncidentsMessage (updateIncidentStatusInList inc v) = updateIncidentStatusInList inc v"
  unfolding notice_idle_iff
  by (cases "markers v (inc_id inc)") (auto simp add: updateIncidentStatusInList_def)

lemma notice_kept_by_add:
  "updateNoIncidentsMessage v = v \<Longrightarrow>
   updateNoIncidentsMessage (addIncidentToMapAndList inc b v) = addIncidentToMapAndList inc b v"
proof (cases "inc_id inc \<in> displayedIncidentIds v")
  case True
  assume "updateNoIncidentsMessage v = v"
  with True show ?thesis
    by (simp add: addIncidentToMapAndList_def notice_kept_by_update)
next
  case False
  then show ?thesis
    by (simp add: addIncidentToMapAndList_def updateNoIncidentsMessage_def)
qed

lemma notice_kept_by_remove:
  "updateNoIncidentsMessage (removeIncidentFromMapAndList i v) = removeIncidentFromMapAndList i v"
  by (simp add: removeIncidentFromMapAndList_def updateNoIncidentsMessage_def)

lemma consistent_page_loaded: "consistent page_loaded \<and> updateNoIncidentsMessage page_loaded = page_loaded"
  by (simp add: consistent_def page_loaded_def updateNoIncidentsMessage_def)

section \<open>The claims\<close>

subsection \<open>C1: a press on a message no incident belongs to\<close>




subsection \<open>C2: one run of the poll\<close>




subsection \<open>C3: report ingestion\<close>

text \<open>
  As the claim has it, a report outside latitude [-90, 90] or longitude [-180, 180] would
  be rejected without side effects.  The handler never looks at the bounds: a report
  from (91, 200) is forwarded to the group and stored.
\<close>

theorem C3_no_bounds_check_counterexample:
  "\<not> spec_valid_location 91 200 \<and>
   incidents (bot_on_location all_goes_well (alice\<lparr>loc_latitude := 91, loc_longitude := 200\<rparr>) nothing_yet) =
     [[(''reporter_id'', JInt 42), (''reporter_name'', JStr ''Alice''),
       (''latitude'', JNum 91), (''longitude'', JNum 200), (''status'', JStr ''active''),
       (''telegram_message_id'', JInt 7), (''telegram_chat_id'', JInt (- 100)),
       (''timestamp'', JDate 1000), (''_id'', JOid ''65a1b2c3d4e5f60718293a4b'')]] \<and>
   take 1 (outbox (bot_on_location all_goes_well (alice\<lparr>loc_latitude := 91, loc_longitude := 200\<rparr>) nothing_yet)) =
     [SendLocation (Group ''-100'') 91 200]"
  by (simp add: spec_valid_location_def bot_on_location_def Let_def do_def insertOne_def newIncident_def)

text \<open>
  Claim C3, amended.  Ingestion does not test the location.  For every report, whatever
  its coordinates: when both sends and the insert go through, exactly one incident is
  added to the collection, with status \<^verbatim>\<open>active\<close> and the message and chat id of the
  group message just sent, and one \<^verbatim>\<open>new_incident\<close> event carries it; when a send or
  the insert fails, the collection is unchanged and nothing is emitted.
\<close>

theorem C3_ingest_any_location:
  "(sendLocation_ok io \<and> forwardedMessage io = Some (mid, cid) \<and> insertedId io = Some oid \<and>
    findOne [(''_id'', JOid oid)] (incidents w) = None \<longrightarrow>
      incidents (bot_on_location io msg w) =
        incidents w @ [AList.update ''_id'' (JOid oid) (newIncident msg mid cid (loc_now io))] \<and>
      map_of (AList.update ''_id'' (JOid oid) (newIncident msg mid cid (loc_now io))) ''status'' =
        Some (JStr ''active'') \<and>
      map_of (AList.update ''_id'' (JOid oid) (newIncident msg mid cid (loc_now io))) ''telegram_message_id'' =
        Some (JInt mid) \<and>
      map_of (AList.update ''_id'' (JOid oid) (newIncident msg mid cid (loc_now io))) ''telegram_chat_id'' =
        Some (JInt cid) \<and>
      outbox (bot_on_location io msg w) =
        outbox w @
        [SendLocation (Group (TELEGRAM_GROUP_ID io)) (loc_latitude msg) (loc_longitude msg),
         SendMessage (Group (TELEGRAM_GROUP_ID io)) (messageText (num_str io) msg)
           (Some (inlineKeyboard (loc_from_id msg))),
         SendMessage (Chat (loc_chat_id msg))
           ''Your location has been forwarded to emergency response services.'' None,
         Emit (new_incident (AList.update ''_id'' (JOid oid) (newIncident msg mid cid (loc_now io))))]) \<and>
   (\<not> sendLocation_ok io \<or> forwardedMessage io = None \<or> insertedId io = None \<or>
    (\<exists>oid d. insertedId io = Some oid \<and> findOne [(''_id'', JOid oid)] (incidents w) = Some d) \<longrightarrow>
      incidents (bot_on_location io msg w) = incidents w \<and>
      \<not> list_ex is_emit (drop (length (outbox w)) (outbox (bot_on_location io msg w))))"
proof (intro conjI impI)
  assume a: "sendLocation_ok io \<and> forwardedMessage io = Some (mid, cid) \<and> insertedId io = Some oid \<and>
    findOne [(''_id'', JOid oid)] (incidents w) = None"
  then have r: "bot_on_location io msg w =
     do [SendMessage (Chat (loc_chat_id msg))
           ''Your location has been forwarded to emergency response services.'' None,
         Emit (new_incident (AList.update ''_id'' (JOid oid) (newIncident msg mid cid (loc_now io))))]
      ((do [SendMessage (Group (TELEGRAM_GROUP_ID io)) (messageText (num_str io) msg)
                               (Some (inlineKeyboard (loc_from_id msg)))]
          (do [SendLocation (Group (TELEGRAM_GROUP_ID io)) (loc_latitude msg) (loc_longitude msg)] w))
        \<lparr>incidents := incidents w @ [AList.update ''_id'' (JOid oid) (newIncident msg mid cid (loc_now io))]\<rparr>)"
    by (simp add: bot_on_location_def Let_def insertOne_def incidents_do)
  show "incidents (bot_on_location io msg w) =
        incidents w @ [AList.update ''_id'' (JOid oid) (newIncident msg mid cid (loc_now io))]"
    by (simp add: r incidents_do)
  show "map_of (AList.update ''_id'' (JOid oid) (newIncident msg mid cid (loc_now io))) ''status'' =
        Some (JStr ''active'')"
    by (simp add: AList.update_conv' newIncident_def)
  show "map_of (AList.update ''_id'' (JOid oid) (newIncident msg mid cid (loc_now io))) ''telegram_message_id'' =
        Some (JInt mid)"
    by (simp add: AList.update_conv' newIncident_def)
  show "map_of (AList.update ''_id'' (JOid oid) (newIncident msg mid cid (loc_now io))) ''telegram_chat_id'' =
        Some (JInt cid)"
    by (simp add: AList.update_conv' newIncident_def)
  show "outbox (bot_on_location io msg w) =
        outbox w @
        [SendLocation (Group (TELEGRAM_GROUP_ID io)) (loc_latitude msg) (loc_longitude msg),
         SendMessage (Group (TELEGRAM_GROUP_ID io)) (messageText (num_str io) msg)
           (Some (inlineKeyboard (loc_from_id msg))),
         SendMessage (Chat (loc_chat_id msg))
           ''Your location has been forwarded to emergency response services.'' None,
         Emit (new_incident (AList.update ''_id'' (JOid oid) (newIncident msg mid cid (loc_now io))))]"
    by (simp add: r outbox_do do_def)
next
  assume "\<not> sendLocation_ok io \<or> forwardedMessage io = None \<or> insertedId io = None \<or>
    (\<exists>oid d. insertedId io = Some oid \<and> findOne [(''_id'', JOid oid)] (incidents w) = Some d)"
  then show "incidents (bot_on_location io msg w) = incidents w"
    by (auto simp add: bot_on_location_def Let_def insertOne_def incidents_do split: option.splits)
next
  assume "\<not> sendLocation_ok io \<or> forwardedMessage io = None \<or> insertedId io = None \<or>
    (\<exists>oid d. insertedId io = Some oid \<and> findOne [(''_id'', JOid oid)] (incidents w) = Some d)"
  then show "\<not> list_ex is_emit (drop (length (outbox w)) (outbox (bot_on_location io msg w)))"
    by (auto simp add: bot_on_location_def Let_def insertOne_def incidents_do outbox_do error_notice_def
        split: option.splits)
qed

theorem C3_witness:
  "findOne [(''_id'', JOid ''65a1b2c3d4e5f60718293a4b'')] [] = None \<and>
   incidents (bot_on_location all_goes_well alice nothing_yet) = [alice_doc] \<and>
   forwardedMessage (all_goes_well\<lparr>forwardedMessage := None\<rparr>) = None \<and>
   incidents (bot_on_location (all_goes_well\<lparr>forwardedMessage := None\<rparr>) alice one_incident) = [alice_doc]"
  using C3_ingest_any_location [of all_goes_well 7 "- 100" "''65a1b2c3d4e5f60718293a4b''" nothing_yet alice]
    C3_ingest_any_location [of "all_goes_well\<lparr>forwardedMessage := None\<rparr>" 7 "- 100"
      "''65a1b2c3d4e5f60718293a4b''" one_incident alice]
  by (simp add: newIncident_def)

subsection \<open>C4: field names on the wire\<close>

text \<open>
  As the claim has it, the identifier travels as \<^verbatim>\<open>id\<close>.  The code never writes
  that name: the record of Alice's report, as \<^verbatim>\<open>GET /incidents\<close> returns it, carries
  \<^verbatim>\<open>_id\<close>.
\<close>

theorem C4_underscore_id_counterexample:
  "resp_body (app_get_incidents False (bot_on_location all_goes_well alice nothing_yet)) = Json [alice_doc] \<and>
   \<not> spec_wire_shape alice_doc"
proof
  show "resp_body (app_get_incidents False (bot_on_location all_goes_well alice nothing_yet)) = Json [alice_doc]"
    by (simp add: app_get_incidents_def bot_on_location_def Let_def do_def insertOne_def newIncident_def)
  have i: "''_id'' \<in> set (map fst alice_doc)"
    by simp
  have n: "''_id'' \<notin> set (''last_updated'' # [''id'', ''reporter_id'', ''reporter_name'', ''latitude'', ''longitude'', ''status'',
                   ''telegram_message_id'', ''telegram_chat_id'', ''timestamp''])"
    by simp
  show "\<not> spec_wire_shape alice_doc"
  proof
    assume "spec_wire_shape alice_doc"
    then have "set (map fst alice_doc) \<subseteq> set (''last_updated'' # [''id'', ''reporter_id'', ''reporter_name'', ''latitude'', ''longitude'', ''status'',
                   ''telegram_message_id'', ''telegram_chat_id'', ''timestamp''])"
      unfolding spec_wire_shape_def Let_def by (elim disjE) (simp_all only: list.set, blast+)
    with i n show False by blast
  qed
qed

text \<open>
  Claim C4, amended.  In every state the server reaches from an empty collection, every
  stored incident, every document of an emitted event and every element of the array
  \<^verbatim>\<open>GET /incidents\<close> returns has pairwise different field names, and they are exactly
  \<^verbatim>\<open>_id\<close>, \<^verbatim>\<open>reporter_id\<close>, \<^verbatim>\<open>reporter_name\<close>, \<^verbatim>\<open>latitude\<close>,
  \<^verbatim>\<open>longitude\<close>, \<^verbatim>\<open>status\<close>, \<^verbatim>\<open>telegram_message_id\<close>,
  \<^verbatim>\<open>telegram_chat_id\<close>, \<^verbatim>\<open>timestamp\<close>, with or without \<^verbatim>\<open>last_updated\<close>.
\<close>

theorem C4_wire_field_names:
  "reachable w \<Longrightarrow>
   list_all wire_shape (incidents w) \<and>
   list_all (\<lambda>e. list_all wire_shape (effect_docs e)) (outbox w) \<and>
   (case resp_body (app_get_incidents failing w) of Json ds \<Rightarrow> list_all wire_shape ds | _ \<Rightarrow> True)"
proof -
  assume "reachable w"
  then have "shaped w" by (rule reachable_shaped)
  then show ?thesis
    by (simp add: shaped_def app_get_incidents_def)
qed

theorem C4_witness:
  "reachable (bot_on_location all_goes_well alice nothing_yet) \<and>
   incidents (bot_on_location all_goes_well alice nothing_yet) = [alice_doc] \<and>
   list_all wire_shape (incidents (bot_on_location all_goes_well alice nothing_yet))"
proof -
  have r: "reachable (bot_on_location all_goes_well alice nothing_yet)"
    by (rule reachable.location [OF reachable.start])
  have e: "incidents (bot_on_location all_goes_well alice nothing_yet) = [alice_doc]"
    by (simp add: bot_on_location_def Let_def do_def insertOne_def newIncident_def)
  from C4_wire_field_names [OF r] have "list_all wire_shape (incidents (bot_on_location all_goes_well alice nothing_yet))"
    by (rule conjunct1)
  with r e show ?thesis by (intro conjI)
qed


subsection \<open>C5: the table of transitions\<close>

text \<open>
  Claim C5.  On a token \<^verbatim>\<open>verb_qualifier_actor\<close> the new status is a function of the
  token alone: \<^verbatim>\<open>tow\<close> with \<^verbatim>\<open>eagles\<close> gives "Tow Requested: Eagles 24",
  \<^verbatim>\<open>tow\<close> with any other qualifier gives "Tow Requested: Other", \<^verbatim>\<open>scene\<close> with
  \<^verbatim>\<open>cleared\<close> gives "Scene Cleared" and marks the buttons for removal, and every
  other pair is rejected.  For "Scene Cleared" the edit of the channel message is made
  without a \<^verbatim>\<open>reply_markup\<close>, which takes the buttons off.
\<close>

theorem C5_resolve_action_table:
  "CHR ''_'' \<notin> set verb \<and> CHR ''_'' \<notin> set qual \<longrightarrow>
     resolve_action (verb @ ''_'' @ qual @ ''_'' @ actor) =
       (if verb = ''tow''
        then Some (if qual = ''eagles'' then ''Tow Requested: Eagles 24'' else ''Tow Requested: Other'', False)
        else if verb = ''scene'' \<and> qual = ''cleared'' then Some (''Scene Cleared'', True)
        else None) \<and>
     (verb = ''scene'' \<and> qual = ''cleared'' \<and> cq_data cq = verb @ ''_'' @ qual @ ''_'' @ actor \<and>
      editMessageText_ok io \<longrightarrow>
        take (Suc (length (outbox w))) (outbox (bot_on_callback_query io cq w)) =
          outbox w @ [EditMessageText (original_text cq @ audit_line io cq ''Scene Cleared'')
                        (cq_chat_id cq) (cq_message_id cq) None])"
proof (intro impI conjI)
  assume a: "CHR ''_'' \<notin> set verb \<and> CHR ''_'' \<notin> set qual"
  then have s: "split_str (CHR ''_'') (verb @ ''_'' @ qual @ ''_'' @ actor) = verb # qual # split_str (CHR ''_'') actor"
    by (simp add: split_str_append)
  show r: "resolve_action (verb @ ''_'' @ qual @ ''_'' @ actor) =
       (if verb = ''tow''
        then Some (if qual = ''eagles'' then ''Tow Requested: Eagles 24'' else ''Tow Requested: Other'', False)
        else if verb = ''scene'' \<and> qual = ''cleared'' then Some (''Scene Cleared'', True)
        else None)"
    using resolve_action_segments [OF s] by simp
  assume b: "verb = ''scene'' \<and> qual = ''cleared'' \<and> cq_data cq = verb @ ''_'' @ qual @ ''_'' @ actor \<and>
      editMessageText_ok io"
  then have "resolve_action (cq_data cq) = Some (''Scene Cleared'', True)"
    using r by simp
  from callback_first_effect [OF this] b
  show "take (Suc (length (outbox w))) (outbox (bot_on_callback_query io cq w)) =
          outbox w @ [EditMessageText (original_text cq @ audit_line io cq ''Scene Cleared'')
                        (cq_chat_id cq) (cq_message_id cq) None]"
    by simp
qed

theorem C5_witness:
  "CHR ''_'' \<notin> set ''scene'' \<and> CHR ''_'' \<notin> set ''cleared'' \<and>
   resolve_action ''scene_cleared_42'' = Some (''Scene Cleared'', True) \<and>
   take (Suc 0) (outbox (bot_on_callback_query calls_succeed (press ''scene_cleared_42'') nothing_yet)) =
     [EditMessageText (''Report'' @ audit_line calls_succeed (press ''scene_cleared_42'') ''Scene Cleared'')
        (- 100) 7 None]"
  using C5_resolve_action_table [of "''scene''" "''cleared''" "''42''" "press ''scene_cleared_42''"
      calls_succeed nothing_yet]
  by (simp add: original_text_def)

subsection \<open>C6: unknown tokens\<close>

text \<open>
  Claim C6.  A token whose first segment is not \<^verbatim>\<open>tow\<close> and whose first two segments
  are not \<^verbatim>\<open>scene\<close>, \<^verbatim>\<open>cleared\<close> changes nothing: the collection is the same, no
  message is edited, and the only thing done is the answer "Unknown action." to the
  press.
\<close>

theorem C6_unknown_action_no_mutation:
  assumes "split_str (CHR ''_'') (cq_data cq) = verb # rest"
    and "verb \<noteq> ''tow''"
    and "\<not> (verb = ''scene'' \<and> index rest 0 = Some ''cleared'')"
  shows "bot_on_callback_query io cq w =
           w\<lparr>outbox := outbox w @ [AnswerCallbackQuery (cq_id cq) ''Unknown action.'']\<rparr>"
proof -
  have "resolve_action (cq_data cq) = None"
    using resolve_action_segments [OF assms(1)] assms(2,3) by auto
  then show ?thesis
    by (simp add: bot_on_callback_query_def do_def)
qed

theorem C6_witness:
  "split_str (CHR ''_'') ''bogus_token_1'' = [''bogus'', ''token'', ''1''] \<and>
   bot_on_callback_query calls_succeed (press ''bogus_token_1'') one_incident =
     \<lparr>incidents = [alice_doc], outbox = [AnswerCallbackQuery ''q1'' ''Unknown action.'']\<rparr>"
proof -
  have s: "split_str (CHR ''_'') ''bogus_token_1'' = [''bogus'', ''token'', ''1'']"
    by simp
  have "split_str (CHR ''_'') (cq_data (press ''bogus_token_1'')) = ''bogus'' # [''token'', ''1'']"
    by simp
  from C6_unknown_action_no_mutation [OF this, of calls_succeed one_incident] s
  show ?thesis by simp
qed

subsection \<open>C7: deleting an incident\<close>

text \<open>
  As the claim has it, deleting an id that no incident has is answered 404 with a
  message.  An id that is neither 24 hexadecimal digits nor 12 bytes makes the
  \<^verbatim>\<open>ObjectId\<close> constructor throw inside the \<^verbatim>\<open>try\<close>: the answer is 500 with a
  plain text.
\<close>

theorem C7_malformed_id_counterexample:
  "app_delete_incident \<lparr>findOne_fails = False, deleteOne_fails = False\<rparr> ''abc''
     \<lparr>incidents = [], outbox = []\<rparr> =
   (\<lparr>resp_status = 500, resp_body = Text ''Error deleting incident.''\<rparr>,
    \<lparr>incidents = [], outbox = []\<rparr>)"
  by (simp add: app_delete_incident_def ObjectId_def error_deleting_def)

text \<open>
  Claim C7, amended.  An id that the \<^verbatim>\<open>ObjectId\<close> constructor refuses (neither 24
  hexadecimal digits nor a string of 12 bytes), or a failing lookup, is answered 500
  and changes nothing.  For an id the constructor accepts and database calls that go
  through, on a collection with unique ids: when no incident has the id the answer is
  404 with a message and nothing is emitted or changed; when an incident has it the
  answer is 200 with a message, that incident and no other leaves the collection, no
  remaining incident has the id, and exactly one \<^verbatim>\<open>incident_deleted\<close> event with the
  requested id is emitted.  The constructor accepts exactly the strings of 12 ASCII
  characters and the strings of 24 hexadecimal digits.  Ids are unique in every
  collection the server reaches (\<open>reachable_unique_ids\<close>).
\<close>

theorem C7_delete_wellformed_id:
  "(ObjectId i = None \<or> findOne_fails io \<longrightarrow> app_delete_incident io i w = (error_deleting, w)) \<and>
   (ObjectId i = Some oid \<and> \<not> findOne_fails io \<and> \<not> deleteOne_fails io \<and> unique_ids (incidents w) \<longrightarrow>
      (findOne [(''_id'', JOid oid)] (incidents w) = None \<longrightarrow>
         app_delete_incident io i w =
           (\<lparr>resp_status = 404, resp_body = Message ''Incident not found.''\<rparr>, w)) \<and>
      (\<forall>d. findOne [(''_id'', JOid oid)] (incidents w) = Some d \<longrightarrow>
         fst (app_delete_incident io i w) =
           \<lparr>resp_status = 200, resp_body = Message ''Incident deleted successfully.''\<rparr> \<and>
         (\<forall>x \<in> set (incidents (snd (app_delete_incident io i w))). map_of x ''_id'' \<noteq> Some (JOid oid)) \<and>
         (\<exists>ds1 ds2. incidents w = ds1 @ d # ds2 \<and>
                     incidents (snd (app_delete_incident io i w)) = ds1 @ ds2) \<and>
         outbox (snd (app_delete_incident io i w)) = outbox w @ [Emit (incident_deleted i)])) \<and>
   (ObjectId i \<noteq> None \<longleftrightarrow>
      length i = 12 \<and> list_all (\<lambda>c. of_char c < (128::nat)) i \<or>
      length i = 24 \<and> list_all (\<lambda>c. c \<in> set ''0123456789abcdefABCDEF'') i)"
proof (intro conjI impI allI)
  show "ObjectId i \<noteq> None \<longleftrightarrow>
      length i = 12 \<and> list_all (\<lambda>c. of_char c < (128::nat)) i \<or>
      length i = 24 \<and> list_all (\<lambda>c. c \<in> set ''0123456789abcdefABCDEF'') i"
    unfolding ObjectId_def by (simp only: split: if_split) blast
next
  assume "ObjectId i = None \<or> findOne_fails io"
  then show "app_delete_incident io i w = (error_deleting, w)"
    by (auto simp add: app_delete_incident_def split: option.splits)
next
  assume a: "ObjectId i = Some oid \<and> \<not> findOne_fails io \<and> \<not> deleteOne_fails io \<and> unique_ids (incidents w)"
    and "findOne [(''_id'', JOid oid)] (incidents w) = None"
  then show "app_delete_incident io i w =
           (\<lparr>resp_status = 404, resp_body = Message ''Incident not found.''\<rparr>, w)"
    by (simp add: app_delete_incident_def)
next
  fix d
  assume a: "ObjectId i = Some oid \<and> \<not> findOne_fails io \<and> \<not> deleteOne_fails io \<and> unique_ids (incidents w)"
    and f: "findOne [(''_id'', JOid oid)] (incidents w) = Some d"
  from a f obtain ds1 ds2 where
    h: "incidents w = ds1 @ d # ds2" "deleteOne [(''_id'', JOid oid)] (incidents w) = (1, ds1 @ ds2)"
       "\<forall>x \<in> set (ds1 @ ds2). map_of x ''_id'' \<noteq> Some (JOid oid)"
    using deleteOne_unique by blast
  from a f h(2) have r: "app_delete_incident io i w =
      (\<lparr>resp_status = 200, resp_body = Message ''Incident deleted successfully.''\<rparr>,
       do [Emit (incident_deleted i)] (w\<lparr>incidents := ds1 @ ds2\<rparr>))"
    by (simp add: app_delete_incident_def)
  show "fst (app_delete_incident io i w) =
           \<lparr>resp_status = 200, resp_body = Message ''Incident deleted successfully.''\<rparr>"
    by (simp add: r)
  show "\<forall>x \<in> set (incidents (snd (app_delete_incident io i w))). map_of x ''_id'' \<noteq> Some (JOid oid)"
    using h(3) by (simp add: r incidents_do)
  show "\<exists>ds1 ds2. incidents w = ds1 @ d # ds2 \<and>
                     incidents (snd (app_delete_incident io i w)) = ds1 @ ds2"
    using h(1) by (auto simp add: r incidents_do)
  show "outbox (snd (app_delete_incident io i w)) = outbox w @ [Emit (incident_deleted i)]"
    by (simp add: r outbox_do)
qed

theorem C7_witness:
  "ObjectId ''65A1B2C3D4E5F60718293A4B'' = Some ''65a1b2c3d4e5f60718293a4b'' \<and>
   unique_ids [alice_doc] \<and>
   findOne [(''_id'', JOid ''65a1b2c3d4e5f60718293a4b'')] [alice_doc] = Some alice_doc \<and>
   fst (app_delete_incident \<lparr>findOne_fails = False, deleteOne_fails = False\<rparr>
          ''65A1B2C3D4E5F60718293A4B'' one_incident) =
     \<lparr>resp_status = 200, resp_body = Message ''Incident deleted successfully.''\<rparr> \<and>
   incidents (snd (app_delete_incident \<lparr>findOne_fails = False, deleteOne_fails = False\<rparr>
          ''65A1B2C3D4E5F60718293A4B'' one_incident)) = [] \<and>
   outbox (snd (app_delete_incident \<lparr>findOne_fails = False, deleteOne_fails = False\<rparr>
          ''65A1B2C3D4E5F60718293A4B'' one_incident)) =
     [Emit (incident_deleted ''65A1B2C3D4E5F60718293A4B'')] \<and>
   ObjectId ''65a1b2c3d4e5f60718293a4c'' = Some ''65a1b2c3d4e5f60718293a4c'' \<and>
   findOne [(''_id'', JOid ''65a1b2c3d4e5f60718293a4c'')] [alice_doc] = None \<and>
   app_delete_incident \<lparr>findOne_fails = False, deleteOne_fails = False\<rparr>
     ''65a1b2c3d4e5f60718293a4c'' one_incident =
     (\<lparr>resp_status = 404, resp_body = Message ''Incident not found.''\<rparr>, one_incident) \<and>
   ObjectId ''abc'' = None \<and>
   app_delete_incident \<lparr>findOne_fails = False, deleteOne_fails = False\<rparr> ''abc'' one_incident =
     (error_deleting, one_incident) \<and>
   ObjectId ''abcdefghijkl'' = Some ''6162636465666768696a6b6c'' \<and>
   findOne [(''_id'', JOid ''6162636465666768696a6b6c'')] [alice_doc] = None \<and>
   app_delete_incident \<lparr>findOne_fails = False, deleteOne_fails = False\<rparr>
     ''abcdefghijkl'' one_incident =
     (\<lparr>resp_status = 404, resp_body = Message ''Incident not found.''\<rparr>, one_incident)"
proof -
  let ?io = "\<lparr>findOne_fails = False, deleteOne_fails = False\<rparr>"
  have b: "ObjectId ''abcdefghijkl'' = Some ''6162636465666768696a6b6c''"
    by (simp add: ObjectId_def hex_byte_def)
  have fb: "findOne [(''_id'', JOid ''6162636465666768696a6b6c'')] [alice_doc] = None"
    by (simp add: matches_def)
  from C7_delete_wellformed_id [of "''abcdefghijkl''" ?io one_incident
      "''6162636465666768696a6b6c''"] b fb
  have twelve: "app_delete_incident ?io ''abcdefghijkl'' one_incident =
     (\<lparr>resp_status = 404, resp_body = Message ''Incident not found.''\<rparr>, one_incident)"
    by (simp add: unique_ids_def)
  have o: "ObjectId ''65A1B2C3D4E5F60718293A4B'' = Some ''65a1b2c3d4e5f60718293a4b''"
    by (simp add: ObjectId_def hex_lower_def)
  have o': "ObjectId ''65a1b2c3d4e5f60718293a4c'' = Some ''65a1b2c3d4e5f60718293a4c''"
    by (simp add: ObjectId_def hex_lower_def)
  have o'': "ObjectId ''abc'' = None"
    by (simp add: ObjectId_def)
  have u: "unique_ids [alice_doc]"
    by (simp add: unique_ids_def)
  have f: "findOne [(''_id'', JOid ''65a1b2c3d4e5f60718293a4b'')] [alice_doc] = Some alice_doc"
    by (simp add: matches_def)
  have f': "findOne [(''_id'', JOid ''65a1b2c3d4e5f60718293a4c'')] [alice_doc] = None"
    by (simp add: matches_def)
  from C7_delete_wellformed_id [of "''65A1B2C3D4E5F60718293A4B''" ?io one_incident
      "''65a1b2c3d4e5f60718293a4b''"] o u f
  have present: "fst (app_delete_incident ?io ''65A1B2C3D4E5F60718293A4B'' one_incident) =
       \<lparr>resp_status = 200, resp_body = Message ''Incident deleted successfully.''\<rparr> \<and>
     incidents (snd (app_delete_incident ?io ''65A1B2C3D4E5F60718293A4B'' one_incident)) = [] \<and>
     outbox (snd (app_delete_incident ?io ''65A1B2C3D4E5F60718293A4B'' one_incident)) =
       [Emit (incident_deleted ''65A1B2C3D4E5F60718293A4B'')]"
    by (auto simp add: Cons_eq_append_conv)
  from C7_delete_wellformed_id [of "''65a1b2c3d4e5f60718293a4c''" ?io one_incident
      "''65a1b2c3d4e5f60718293a4c''"] o' u f'
  have absent: "app_delete_incident ?io ''65a1b2c3d4e5f60718293a4c'' one_incident =
     (\<lparr>resp_status = 404, resp_body = Message ''Incident not found.''\<rparr>, one_incident)"
    by simp
  from C7_delete_wellformed_id [of "''abc''" ?io one_incident] o''
  have malformed: "app_delete_incident ?io ''abc'' one_incident = (error_deleting, one_incident)"
    by simp
  from o u f present o' f' absent o'' malformed b fb twelve show ?thesis
    by (intro conjI) (erule conjunct1 | erule conjunct2 [THEN conjunct1] | erule conjunct2 [THEN conjunct2] | assumption)+
qed

subsection \<open>C8: what a status update touches\<close>

text \<open>
  Claim C8.  After any press, every stored incident is either as before or differs from
  its old self only in \<^verbatim>\<open>status\<close>, now the resolved status, and \<^verbatim>\<open>last_updated\<close>,
  now the time of the update; all other fields (id, reporter, location, message
  reference, timestamp) keep their values.  When the press resolves, the calls go through
  and an incident matches, that incident is updated so and emitted.
\<close>

theorem C8_status_update_frame:
  "list_all2
     (\<lambda>old new. new = old \<or>
        (\<exists>st rb. resolve_action (cq_data cq) = Some (st, rb) \<and>
           map_of new = (map_of old)(''status'' \<mapsto> JStr st, ''last_updated'' \<mapsto> JDate (cq_now io))))
     (incidents w) (incidents (bot_on_callback_query io cq w)) \<and>
   (\<forall>st rb d.
      resolve_action (cq_data cq) = Some (st, rb) \<and> editMessageText_ok io \<and> findOneAndUpdate_ok io \<and>
      findOne [(''telegram_message_id'', JInt (cq_message_id cq)),
               (''telegram_chat_id'', JInt (cq_chat_id cq))] (incidents w) = Some d \<longrightarrow>
      (\<exists>ds1 ds2 d'. incidents w = ds1 @ d # ds2 \<and>
         incidents (bot_on_callback_query io cq w) = ds1 @ d' # ds2 \<and>
         map_of d' = (map_of d)(''status'' \<mapsto> JStr st, ''last_updated'' \<mapsto> JDate (cq_now io)) \<and>
         Emit (incident_updated d') \<in> set (outbox (bot_on_callback_query io cq w))))"
proof (intro conjI allI impI)
  let ?flt = "[(''telegram_message_id'', JInt (cq_message_id cq)), (''telegram_chat_id'', JInt (cq_chat_id cq))]"
  let ?P = "\<lambda>old new. new = old \<or>
        (\<exists>st rb. resolve_action (cq_data cq) = Some (st, rb) \<and>
           map_of new = (map_of old)(''status'' \<mapsto> JStr st, ''last_updated'' \<mapsto> JDate (cq_now io)))"
  from callback_incidents [of io cq w]
  show "list_all2 ?P (incidents w) (incidents (bot_on_callback_query io cq w))"
  proof
    assume "incidents (bot_on_callback_query io cq w) = incidents w"
    then show ?thesis by (simp add: list_all2_same)
  next
    assume "\<exists>st rb. resolve_action (cq_data cq) = Some (st, rb) \<and>
      incidents (bot_on_callback_query io cq w) =
        snd (findOneAndUpdate ?flt [(''status'', JStr st), (''last_updated'', JDate (cq_now io))] (incidents w))"
    then obtain st rb where
      r: "resolve_action (cq_data cq) = Some (st, rb)" and
      e: "incidents (bot_on_callback_query io cq w) =
        snd (findOneAndUpdate ?flt [(''status'', JStr st), (''last_updated'', JDate (cq_now io))] (incidents w))"
      by blast
    have "list_all2 (\<lambda>old new. new = old \<or> new = set_fields [(''status'', JStr st), (''last_updated'', JDate (cq_now io))] old)
            (incidents w) (incidents (bot_on_callback_query io cq w))"
      unfolding e by (rule findOneAndUpdate_frame)
    then show ?thesis
      by (rule list_all2_mono) (use r in \<open>auto simp add: map_of_set_fields2\<close>)
  qed
next
  fix st rb d
  let ?flt = "[(''telegram_message_id'', JInt (cq_message_id cq)), (''telegram_chat_id'', JInt (cq_chat_id cq))]"
  let ?upd = "[(''status'', JStr st), (''last_updated'', JDate (cq_now io))]"
  assume a: "resolve_action (cq_data cq) = Some (st, rb) \<and> editMessageText_ok io \<and> findOneAndUpdate_ok io \<and>
      findOne ?flt (incidents w) = Some d"
  then obtain ds1 ds2 where
    h: "incidents w = ds1 @ d # ds2"
       "findOneAndUpdate ?flt ?upd (incidents w) = (Some (set_fields ?upd d), ds1 @ set_fields ?upd d # ds2)"
    using findOneAndUpdate_some [of ?flt "incidents w" d ?upd] by blast
  from a h(2) have "incidents (bot_on_callback_query io cq w) = ds1 @ set_fields ?upd d # ds2"
    and "Emit (incident_updated (set_fields ?upd d)) \<in> set (outbox (bot_on_callback_query io cq w))"
    by (simp_all add: bot_on_callback_query_def Let_def outbox_do incidents_do)
  with h(1) show "\<exists>ds1 ds2 d'. incidents w = ds1 @ d # ds2 \<and>
         incidents (bot_on_callback_query io cq w) = ds1 @ d' # ds2 \<and>
         map_of d' = (map_of d)(''status'' \<mapsto> JStr st, ''last_updated'' \<mapsto> JDate (cq_now io)) \<and>
         Emit (incident_updated d') \<in> set (outbox (bot_on_callback_query io cq w))"
    by (intro exI [of _ ds1] exI [of _ ds2] exI [of _ "set_fields ?upd d"]) (simp add: map_of_set_fields2)
qed

theorem C8_witness:
  "resolve_action (cq_data (press ''scene_cleared_42'')) = Some (''Scene Cleared'', True) \<and>
   findOne [(''telegram_message_id'', JInt (cq_message_id (press ''scene_cleared_42''))),
            (''telegram_chat_id'', JInt (cq_chat_id (press ''scene_cleared_42'')))]
     (incidents one_incident) = Some alice_doc \<and>
   (\<exists>ds1 ds2 d'. incidents one_incident = ds1 @ alice_doc # ds2 \<and>
      incidents (bot_on_callback_query calls_succeed (press ''scene_cleared_42'') one_incident) =
        ds1 @ d' # ds2 \<and>
      map_of d' = (map_of alice_doc)(''status'' \<mapsto> JStr ''Scene Cleared'',
                                     ''last_updated'' \<mapsto> JDate (cq_now calls_succeed)) \<and>
      Emit (incident_updated d') \<in>
        set (outbox (bot_on_callback_query calls_succeed (press ''scene_cleared_42'') one_incident)))"
proof -
  have r: "resolve_action (cq_data (press ''scene_cleared_42'')) = Some (''Scene Cleared'', True)"
    by (simp add: resolve_action_def)
  have f: "findOne [(''telegram_message_id'', JInt (cq_message_id (press ''scene_cleared_42''))),
            (''telegram_chat_id'', JInt (cq_chat_id (press ''scene_cleared_42'')))]
     (incidents one_incident) = Some alice_doc"
    by (simp add: matches_def)
  have ok: "editMessageText_ok calls_succeed \<and> findOneAndUpdate_ok calls_succeed"
    by simp
  from r ok f have p:
    "resolve_action (cq_data (press ''scene_cleared_42'')) = Some (''Scene Cleared'', True) \<and>
     editMessageText_ok calls_succeed \<and> findOneAndUpdate_ok calls_succeed \<and>
     findOne [(''telegram_message_id'', JInt (cq_message_id (press ''scene_cleared_42''))),
              (''telegram_chat_id'', JInt (cq_chat_id (press ''scene_cleared_42'')))]
       (incidents one_incident) = Some alice_doc"
    by blast
  note c = C8_status_update_frame [THEN conjunct2, rule_format, OF p]
  from r f c show ?thesis by (intro conjI)
qed

subsection \<open>C9: merging on the page\<close>

text \<open>
  Claim C9.  Handling the same \<^verbatim>\<open>new_incident\<close> event a second time leaves the page as
  the first handling left it, from any state of the page; in the script without an id
  set the merge is idempotent too, and its listener differs only by the alert it plays
  on every event.  Removing an id that has no marker, no list entry and is not in the id
  set only recomputes the "no incidents" notice, so it changes nothing on a page whose
  notice is current.
\<close>

theorem C9_merge_idempotent:
  "on_new_incident inc (on_new_incident inc v) = on_new_incident inc v \<and>
   addIncidentToMapAndList_p0 inc (addIncidentToMapAndList_p0 inc v) = addIncidentToMapAndList_p0 inc v \<and>
   on_new_incident_p0 inc (on_new_incident_p0 inc v) =
     (on_new_incident_p0 inc v)\<lparr>alerts := alerts (on_new_incident_p0 inc v) @ [0]\<rparr> \<and>
   (markers v i = None \<and> i \<notin> set (map li_id (incidentList v)) \<and> i \<notin> displayedIncidentIds v \<longrightarrow>
      on_incident_deleted i v = updateNoIncidentsMessage v \<and>
      removeIncidentFromMapAndList_p0 i v = updateNoIncidentsMessage v \<and>
      (updateNoIncidentsMessage v = v \<longrightarrow>
         on_incident_deleted i v = v \<and> removeIncidentFromMapAndList_p0 i v = v))"
proof (intro conjI impI)
  show "on_new_incident inc (on_new_incident inc v) = on_new_incident inc v"
    by (simp add: on_new_incident_def addIncidentToMapAndList_idem)
  show "addIncidentToMapAndList_p0 inc (addIncidentToMapAndList_p0 inc v) = addIncidentToMapAndList_p0 inc v"
    by (rule addIncidentToMapAndList_p0_idem)
  show "on_new_incident_p0 inc (on_new_incident_p0 inc v) =
     (on_new_incident_p0 inc v)\<lparr>alerts := alerts (on_new_incident_p0 inc v) @ [0]\<rparr>"
    by (cases "markers v (inc_id inc)")
       (simp_all add: on_new_incident_p0_def addIncidentToMapAndList_p0_def updateNoIncidentsMessage_def)
next
  assume a: "markers v i = None \<and> i \<notin> set (map li_id (incidentList v)) \<and> i \<notin> displayedIncidentIds v"
  then show r: "on_incident_deleted i v = updateNoIncidentsMessage v"
    by (simp add: on_incident_deleted_def removeIncidentFromMapAndList_absent)
  from a show r0: "removeIncidentFromMapAndList_p0 i v = updateNoIncidentsMessage v"
    by (simp add: removeIncidentFromMapAndList_p0_absent)
  assume "updateNoIncidentsMessage v = v"
  with r r0 show "on_incident_deleted i v = v" and "removeIncidentFromMapAndList_p0 i v = v"
    by simp_all
qed

theorem C9_witness:
  "markers page_loaded ''65a1b2c3d4e5f60718293a4b'' = None \<and>
   ''65a1b2c3d4e5f60718293a4b'' \<notin> set (map li_id (incidentList page_loaded)) \<and>
   ''65a1b2c3d4e5f60718293a4b'' \<notin> displayedIncidentIds page_loaded \<and>
   updateNoIncidentsMessage page_loaded = page_loaded \<and>
   on_incident_deleted ''65a1b2c3d4e5f60718293a4b'' page_loaded = page_loaded \<and>
   on_new_incident incident_a (on_new_incident incident_a page_loaded) =
     on_new_incident incident_a page_loaded"
proof -
  have a: "markers page_loaded ''65a1b2c3d4e5f60718293a4b'' = None \<and>
   ''65a1b2c3d4e5f60718293a4b'' \<notin> set (map li_id (incidentList page_loaded)) \<and>
   ''65a1b2c3d4e5f60718293a4b'' \<notin> displayedIncidentIds page_loaded"
    by (simp add: page_loaded_def)
  have u: "updateNoIncidentsMessage page_loaded = page_loaded"
    by (simp add: page_loaded_def updateNoIncidentsMessage_def)
  note t = C9_merge_idempotent [of incident_a page_loaded "''65a1b2c3d4e5f60718293a4b''"]
  from t have i: "on_new_incident incident_a (on_new_incident incident_a page_loaded) =
     on_new_incident incident_a page_loaded"
    by (rule conjunct1)
  from t a u have "on_incident_deleted ''65a1b2c3d4e5f60718293a4b'' page_loaded = page_loaded"
    by blast
  with a u i show ?thesis by (intro conjI) blast+
qed


subsection \<open>C10: tokens that begin with tow\<close>

text \<open>
  Claim C10.  A token whose first segment is \<^verbatim>\<open>tow\<close> resolves to a tow request
  whatever follows: with no further segment, or with any number of them, the status is
  "Tow Requested: Other" unless the second segment is exactly \<^verbatim>\<open>eagles\<close>.
\<close>

theorem C10_tow_any_segments:
  "\<forall>s \<in> set rest. CHR ''_'' \<notin> set s \<Longrightarrow>
   resolve_action (join_str (CHR ''_'') (''tow'' # rest)) =
     Some (if index rest 0 = Some ''eagles'' then ''Tow Requested: Eagles 24'' else ''Tow Requested: Other'', False)"
proof -
  assume "\<forall>s \<in> set rest. CHR ''_'' \<notin> set s"
  then have "split_str (CHR ''_'') (join_str (CHR ''_'') (''tow'' # rest)) = ''tow'' # rest"
    by (intro split_join) auto
  from resolve_action_segments [OF this] show ?thesis by simp
qed

theorem C10_witness:
  "CHR ''_'' \<notin> set ''x'' \<and> CHR ''_'' \<notin> set ''1'' \<and> CHR ''_'' \<notin> set ''2'' \<and>
   resolve_action ''tow_x_1_2'' = Some (''Tow Requested: Other'', False) \<and>
   resolve_action ''tow'' = Some (''Tow Requested: Other'', False)"
  using C10_tow_any_segments [of "[''x'', ''1'', ''2'']"] C10_tow_any_segments [of "[]"] by simp


end
